theory Spec2Isabelle
  imports Main "HOL-Library.Log_Nat"
begin

section \<open>Pommel horse aesthetics: lookup and validation rules\<close>

text \<open>
  A shallow embedding of the deterministic functions of the package
  \<^verbatim>\<open>pommel_horse_aesthetics_mcp\<close>: \<^verbatim>\<open>get_element_group\<close> (element_groups.py),
  \<^verbatim>\<open>analyze_spatial_coverage\<close> (spatial_zones.py), \<^verbatim>\<open>analyze_tempo_strategy\<close>
  (temporal_qualities.py), \<^verbatim>\<open>assess_form_quality\<close> (form_assessment.py) and the two tools
  \<^verbatim>\<open>analyze_spatial_composition\<close> and \<^verbatim>\<open>map_routine_structure\<close> (server.py).
\<close>

subsection \<open>Python values and dictionaries\<close>

text \<open>
  The callers hand over dictionaries with string keys. Their values are dynamically typed;
  the model covers the hashable scalars: \<^verbatim>\<open>None\<close>, booleans, integers and strings.
\<close>

datatype pyval = PNone | PBool bool | PInt int | PStr string

type_synonym pydict = "string \<rightharpoonup> pyval"

text \<open>\<^verbatim>\<open>bool(v)\<close>: the truth value Python gives to \<^verbatim>\<open>v\<close> in \<^verbatim>\<open>if v\<close> and \<^verbatim>\<open>not v\<close>.\<close>

fun truthy :: "pyval \<Rightarrow> bool" where
  "truthy PNone = False"
| "truthy (PBool b) = b"
| "truthy (PInt i) = (i \<noteq> 0)"
| "truthy (PStr s) = (s \<noteq> [])"

text \<open>\<^verbatim>\<open>d.get(k, default)\<close>.\<close>

definition dict_get :: "pydict \<Rightarrow> string \<Rightarrow> pyval \<Rightarrow> pyval" where
  "dict_get d k dflt = (case d k of None \<Rightarrow> dflt | Some v \<Rightarrow> v)"

text \<open>
  Python compares and hashes \<^verbatim>\<open>True\<close> as \<^verbatim>\<open>1\<close> and \<^verbatim>\<open>False\<close> as \<^verbatim>\<open>0\<close>, so a \<^verbatim>\<open>set\<close>
  holds at most one of \<^verbatim>\<open>True\<close> and \<^verbatim>\<open>1\<close>. \<open>py_key\<close> maps a value to the representative of
  its equality class; the members of a Python set are modelled by their representatives.
\<close>

fun py_key :: "pyval \<Rightarrow> pyval" where
  "py_key (PBool b) = PInt (if b then 1 else 0)"
| "py_key v = v"

subsection \<open>Double-precision arithmetic\<close>

text \<open>
  Python's \<^verbatim>\<open>float\<close> is IEEE-754 binary64 with round-to-nearest, ties-to-even. Every float
  the form assessment touches is a multiple of \<open>2\<^sup>-\<^sup>5\<^sup>6\<close> of magnitude below \<open>2\<^sup>1\<^sup>0\<^sup>2\<^sup>4\<close>, so a float
  \<open>v\<close> is represented exactly by the integer \<open>v * 2\<^sup>5\<^sup>6\<close>.
\<close>

type_synonym pyfloat = int

definition fl_val :: "pyfloat \<Rightarrow> rat" where
  "fl_val x = of_int x / 2 ^ 56"

text \<open>The quotient \<open>a / b\<close> (\<open>0 \<le> a\<close>, \<open>0 < b\<close>) rounded to the nearest integer, ties to even.\<close>

definition rne_div :: "int \<Rightarrow> int \<Rightarrow> int" where
  "rne_div a b =
     (let f = a div b; r = a mod b
      in if 2 * r < b then f
         else if b < 2 * r then f + 1
         else if even f then f else f + 1)"

text \<open>
  The binary64 value nearest to \<open>a / b\<close> units: the quotient keeps 53 significant bits. It is
  the correct rounding whenever \<open>\<bar>a / b\<bar>\<close> is an integer or at least \<open>2\<^sup>5\<^sup>2\<close> units.
\<close>

definition round53 :: "int \<Rightarrow> int \<Rightarrow> pyfloat" where
  "round53 a b =
     (let s = nat (bitlen (\<bar>a\<bar> div b) - 53)
      in sgn a * (rne_div \<bar>a\<bar> (b * 2 ^ s) * 2 ^ s))"

text \<open>The float denoted by the decimal literal \<open>p / q\<close>, and float subtraction.\<close>

definition fl_lit :: "int \<Rightarrow> int \<Rightarrow> pyfloat" where
  "fl_lit p q = round53 (p * 2 ^ 56) q"

definition fl_sub :: "pyfloat \<Rightarrow> pyfloat \<Rightarrow> pyfloat" where
  "fl_sub x y = round53 (x - y) 1"

subsection \<open>Form assessment (form_assessment.py)\<close>

record form_result =
  quality_score :: pyfloat
  deductions :: "string list"
  form_assessment :: string

text \<open>
  One \<^verbatim>\<open>if\<close> block of \<^verbatim>\<open>assess_form_quality\<close>: when the condition holds, the deduction is
  appended and the penalty subtracted from the running score.
\<close>

definition deduct :: "bool \<Rightarrow> string \<Rightarrow> pyfloat \<Rightarrow> string list \<times> pyfloat \<Rightarrow> string list \<times> pyfloat" where
  "deduct c name penalty st =
     (if c then (fst st @ [name], fl_sub (snd st) penalty) else st)"

definition assess_form_quality :: "pydict \<Rightarrow> form_result" where
  "assess_form_quality element_execution =
     (let st = ([], fl_lit 10 1);
          st = deduct (\<not> truthy (dict_get element_execution ''body_extended'' (PBool True)))
                 ''lack_of_extension'' (fl_lit 3 10) st;
          st = deduct (\<not> truthy (dict_get element_execution ''legs_straight'' (PBool True)))
                 ''bent_knees'' (fl_lit 3 10) st;
          st = deduct (\<not> truthy (dict_get element_execution ''toes_pointed'' (PBool True)))
                 ''flexed_feet'' (fl_lit 1 10) st;
          st = deduct (element_execution ''element_type'' = Some (PStr ''scissor'')
                       \<and> \<not> truthy (dict_get element_execution ''above_shoulder'' (PBool True)))
                 ''lack_of_amplitude'' (fl_lit 3 10) st;
          st = deduct (truthy (dict_get element_execution ''brushing'' (PBool False)))
                 ''brushing'' (fl_lit 1 10) st;
          st = deduct (truthy (dict_get element_execution ''hitting'' (PBool False)))
                 ''hitting'' (fl_lit 3 10) st
      in \<lparr>quality_score = max 0 (snd st),
          deductions = fst st,
          form_assessment = (if fst st = [] then ''clean'' else ''errors_present'')\<rparr>)"

subsection \<open>Element groups (element_groups.py)\<close>

text \<open>
  The static table \<^verbatim>\<open>ELEMENT_GROUPS\<close>, in the order of the dictionary literal. Of each group
  the model keeps the \<^verbatim>\<open>id\<close>, the \<^verbatim>\<open>name\<close> and the keys of its \<^verbatim>\<open>movements\<close> mapping (the
  group \<^verbatim>\<open>dismounts\<close> has no such mapping); the descriptive texts are left out.
\<close>

record element_group =
  eg_id :: string
  eg_name :: string
  eg_movements :: "string list option"

definition ELEMENT_GROUPS :: "(string \<times> element_group) list" where
  "ELEMENT_GROUPS =
     [(''scissors_single_leg'',
         \<lparr>eg_id = ''EG_I'', eg_name = ''Scissors & Single-Leg Work'',
          eg_movements = Some [''basic_scissor'', ''double_scissor'', ''traveling_scissor'',
                               ''scissor_to_handstand'']\<rparr>),
      (''circles_flairs'',
         \<lparr>eg_id = ''EG_II'', eg_name = ''Circles & Flairs'',
          eg_movements = Some [''double_leg_circle'', ''flair'', ''russian'', ''spindle'']\<rparr>),
      (''travels'',
         \<lparr>eg_id = ''EG_III'', eg_name = ''Travels'',
          eg_movements = Some [''magyar'', ''sivado'', ''roth'', ''wu_guonian'']\<rparr>),
      (''spindles_handstands'',
         \<lparr>eg_id = ''EG_IV'', eg_name = ''Spindles & Handstands'',
          eg_movements = Some [''spindle_basic'', ''full_spindle_end'', ''full_spindle_saddle'',
                               ''kehr_variations'', ''handstand_element'']\<rparr>),
      (''dismounts'',
         \<lparr>eg_id = ''EG_V'', eg_name = ''Dismounts'', eg_movements = None\<rparr>)]"

text \<open>
  The loop of \<^verbatim>\<open>get_element_group\<close> over \<^verbatim>\<open>ELEMENT_GROUPS.items()\<close>: the first group whose
  id or key equals the argument is returned; \<^verbatim>\<open>None\<close> when the loop runs out.
\<close>

fun find_group :: "(string \<times> element_group) list \<Rightarrow> string \<Rightarrow> element_group option" where
  "find_group [] group_id = None"
| "find_group ((key, grp) # rest) group_id =
     (if eg_id grp = group_id \<or> key = group_id then Some grp
      else find_group rest group_id)"

definition get_element_group :: "string \<Rightarrow> element_group option" where
  "get_element_group group_id = find_group ELEMENT_GROUPS group_id"

subsection \<open>Spatial zones (spatial_zones.py)\<close>

text \<open>
  An entry of a reference table is a dictionary of descriptive texts; the model keeps its
  field names. The empty list is the empty dictionary \<^verbatim>\<open>{}\<close>, the only falsy entry.
\<close>

type_synonym entry = "string list"

definition apparatus_sections :: "(string \<times> entry) list" where
  "apparatus_sections =
     [(''end_left'', [''name'', ''description'', ''support_width'', ''difficulty_baseline'',
                      ''common_uses'', ''stability'']),
      (''saddle'', [''name'', ''description'', ''support_width'', ''difficulty_modifier'',
                    ''common_uses'', ''stability'']),
      (''end_right'', [''name'', ''description'', ''support_width'', ''difficulty_baseline'',
                       ''common_uses'', ''stability''])]"

definition support_configurations :: "(string \<times> entry) list" where
  "support_configurations =
     [(''between_pommels'', [''position'', ''support_width'', ''stability'', ''typical_use'',
                             ''progression_stage'']),
      (''single_pommel'', [''position'', ''support_width'', ''stability'', ''typical_use'',
                           ''visual_impact'']),
      (''leather_only'', [''position'', ''support_width'', ''stability'', ''typical_use'',
                          ''aesthetic'']),
      (''one_pommel_one_leather'', [''position'', ''support_width'', ''stability'',
                                    ''typical_use'', ''dynamic''])]"

definition trajectory_patterns :: "(string \<times> entry) list" where
  "trajectory_patterns =
     [(''stationary_circle'', [''description'', ''path'', ''zone_usage'', ''visual'']),
      (''longitudinal_travel'', [''description'', ''path'', ''zone_usage'', ''examples'',
                                 ''visual'']),
      (''transverse_circle'', [''description'', ''path'', ''zone_usage'', ''visual'']),
      (''diagonal_path'', [''description'', ''path'', ''zone_usage'', ''visual''])]"

text \<open>\<^verbatim>\<open>table.get(name, {})\<close>.\<close>

definition get_support_config :: "string \<Rightarrow> entry" where
  "get_support_config config_name =
     (case map_of support_configurations config_name of None \<Rightarrow> [] | Some e \<Rightarrow> e)"

definition get_trajectory_pattern :: "string \<Rightarrow> entry" where
  "get_trajectory_pattern pattern_name =
     (case map_of trajectory_patterns pattern_name of None \<Rightarrow> [] | Some e \<Rightarrow> e)"

record coverage =
  zones_covered :: "pyval set"
  all_sections_used :: bool
  coverage_complete :: bool

text \<open>The loop filling \<^verbatim>\<open>zones_used\<close>: an element without the key \<^verbatim>\<open>zone\<close> adds nothing.\<close>

definition add_zone :: "pyval set \<Rightarrow> pydict \<Rightarrow> pyval set" where
  "add_zone zones_used element =
     (case element ''zone'' of None \<Rightarrow> zones_used | Some z \<Rightarrow> insert (py_key z) zones_used)"

definition analyze_spatial_coverage :: "pydict list \<Rightarrow> coverage" where
  "analyze_spatial_coverage elements =
     (let zones_used = foldl add_zone {} elements
      in \<lparr>zones_covered = zones_used,
          all_sections_used = (3 \<le> card zones_used),
          coverage_complete = (PStr ''end_left'' \<in> zones_used \<and> PStr ''saddle'' \<in> zones_used
                               \<and> PStr ''end_right'' \<in> zones_used)\<rparr>)"

subsection \<open>Temporal qualities (temporal_qualities.py)\<close>

record tempo_analysis =
  continuity_maintained :: bool
  rhythm_pattern :: string
  fatigue_risk_zones :: "string list"
  temporal_aesthetic :: "string list"

definition analyze_tempo_strategy :: "pydict list \<Rightarrow> tempo_analysis" where
  "analyze_tempo_strategy routine_structure =
     (let analysis = \<lparr>continuity_maintained = True, rhythm_pattern = ''unknown'',
                      fatigue_risk_zones = [], temporal_aesthetic = []\<rparr>;
          analysis = (if list_ex (\<lambda>el. truthy (dict_get el ''pause'' (PBool False))) routine_structure
                      then analysis\<lparr>continuity_maintained := False\<rparr> else analysis);
          tempos = map (\<lambda>el. dict_get el ''tempo'' (PStr ''moderate'')) routine_structure;
          analysis = (if card (py_key ` set tempos) = 1
                      then analysis\<lparr>rhythm_pattern := ''metronomic''\<rparr>
                      else analysis\<lparr>rhythm_pattern := ''syncopated''\<rparr>);
          analysis = (if 8 < length routine_structure
                      then analysis\<lparr>fatigue_risk_zones := fatigue_risk_zones analysis @ [''routine_end'']\<rparr>
                      else analysis)
      in analysis)"

subsection \<open>The tools of the server (server.py)\<close>

text \<open>
  The \<^verbatim>\<open>if\<close>/\<^verbatim>\<open>elif\<close> chain of \<^verbatim>\<open>map_routine_structure\<close> that maps an element type to its
  element group. The lists hold strings, so only a string can be a member.
\<close>

definition group_of :: "pyval \<Rightarrow> string option" where
  "group_of elem_type =
     (if elem_type \<in> set (map PStr [''circle'', ''flair'', ''russian'', ''spindle''])
        then Some ''circles_flairs''
      else if elem_type \<in> set (map PStr [''scissor'', ''single_leg''])
        then Some ''scissors_single_leg''
      else if elem_type \<in> set (map PStr [''magyar'', ''sivado'', ''travel''])
        then Some ''travels''
      else if elem_type \<in> set (map PStr [''dismount''])
        then Some ''dismounts''
      else None)"

text \<open>
  The body of the loop over the elements: the groups seen so far and the histogram of the
  difficulty letters.
\<close>

definition map_element ::
    "string set \<times> (pyval \<rightharpoonup> nat) \<Rightarrow> pydict \<Rightarrow> string set \<times> (pyval \<rightharpoonup> nat)" where
  "map_element acc element =
     (let elem_type = dict_get element ''element_type'' (PStr ''unknown'');
          groups = (case group_of elem_type of None \<Rightarrow> fst acc | Some g \<Rightarrow> insert g (fst acc));
          diff = py_key (dict_get element ''difficulty_value'' (PStr ''A''));
          profile = (snd acc)(diff \<mapsto> (case snd acc diff of None \<Rightarrow> 0 | Some n \<Rightarrow> n) + 1)
      in (groups, profile))"

record routine_analysis =
  element_count :: nat
  element_groups_present :: "string set"
  difficulty_profile :: "pyval \<rightharpoonup> nat"
  structure_valid :: bool
  analysis_notes :: "string list"
  spatial_coverage :: "coverage option"
  temporal_strategy :: "tempo_analysis option"
  synthesis_ready :: bool

text \<open>One validity check: a failing check clears the flag and appends its note.\<close>

definition fail_if :: "bool \<Rightarrow> string \<Rightarrow> bool \<times> string list \<Rightarrow> bool \<times> string list" where
  "fail_if c note st = (if c then (False, snd st @ [note]) else st)"

definition map_routine_structure :: "pydict list \<Rightarrow> bool \<Rightarrow> bool \<Rightarrow> routine_analysis" where
  "map_routine_structure element_sequence include_spatial include_temporal =
     (let acc = foldl map_element ({}, Map.empty) element_sequence;
          st = (True, []);
          st = fail_if (card (fst acc) < 4)
                 ''Insufficient element group variety - need 4 groups'' st;
          spatial = (if include_spatial
                     then Some (analyze_spatial_coverage element_sequence) else None);
          st = (case spatial of None \<Rightarrow> st
                | Some c \<Rightarrow> fail_if (\<not> coverage_complete c)
                    ''Incomplete zone coverage - must use all 3 sections'' st);
          temporal = (if include_temporal
                      then Some (analyze_tempo_strategy element_sequence) else None);
          st = (case temporal of None \<Rightarrow> st
                | Some t \<Rightarrow> fail_if (\<not> continuity_maintained t)
                    ''Routine has pauses - continuity required'' st)
      in \<lparr>element_count = length element_sequence,
          element_groups_present = fst acc,
          difficulty_profile = snd acc,
          structure_valid = fst st,
          analysis_notes = snd st,
          spatial_coverage = spatial,
          temporal_strategy = temporal,
          synthesis_ready = fst st\<rparr>)"

text \<open>
  The response of \<^verbatim>\<open>analyze_spatial_composition\<close> is a dictionary; its values are a whole
  reference table (named), an entry of a table, or an error message.
\<close>

datatype resp = Table string | Entry entry | Msg string

text \<open>The f-string \<^verbatim>\<open>f"{what} '{key}' not found"\<close>.\<close>

definition not_found :: "string \<Rightarrow> string \<Rightarrow> string" where
  "not_found what key = what @ '' '' @ [CHR 0x27] @ key @ [CHR 0x27] @ '' not found''"

text \<open>An optional string argument is truthy when it is given and not empty.\<close>

fun given :: "string option \<Rightarrow> bool" where
  "given None = False"
| "given (Some s) = (s \<noteq> [])"

definition analyze_spatial_composition ::
    "string option \<Rightarrow> string option \<Rightarrow> string option \<Rightarrow> (string \<rightharpoonup> resp)" where
  "analyze_spatial_composition zone_focus support_configuration trajectory_type =
     (let result = [''spatial_zones'' \<mapsto> Table ''SPATIAL_ZONES'',
                    ''apparatus_specs'' \<mapsto> Table ''APPARATUS_SPECS''];
          result = (if given zone_focus
                    then (case map_of apparatus_sections (the zone_focus) of
                            Some e \<Rightarrow> result(''focused_zone'' \<mapsto> Entry e)
                          | None \<Rightarrow> result(''error'' \<mapsto> Msg (not_found ''Zone'' (the zone_focus))))
                    else result);
          result = (if given support_configuration
                    then (let config = get_support_config (the support_configuration)
                          in if config \<noteq> []
                             then result(''support_details'' \<mapsto> Entry config)
                             else result(''error'' \<mapsto>
                                    Msg (not_found ''Support config'' (the support_configuration))))
                    else result);
          result = (if given trajectory_type
                    then (let trajectory = get_trajectory_pattern (the trajectory_type)
                          in if trajectory \<noteq> []
                             then result(''trajectory_details'' \<mapsto> Entry trajectory)
                             else result(''error'' \<mapsto>
                                    Msg (not_found ''Trajectory'' (the trajectory_type))))
                    else result)
      in result)"

subsection \<open>The rules as the specification words them\<close>

text \<open>
  The table of the form rules: the condition that triggers a deduction, its name and its
  penalty, in the order of the table.
\<close>

definition falsy_flag :: "pydict \<Rightarrow> string \<Rightarrow> bool" where
  "falsy_flag e k = (\<not> truthy (dict_get e k (PBool True)))"

definition truthy_flag :: "pydict \<Rightarrow> string \<Rightarrow> bool" where
  "truthy_flag e k = truthy (dict_get e k (PBool False))"

definition spec_form_rules :: "pydict \<Rightarrow> (bool \<times> string \<times> pyfloat) list" where
  "spec_form_rules e =
     [(falsy_flag e ''body_extended'', ''lack_of_extension'', fl_lit 3 10),
      (falsy_flag e ''legs_straight'', ''bent_knees'', fl_lit 3 10),
      (falsy_flag e ''toes_pointed'', ''flexed_feet'', fl_lit 1 10),
      (e ''element_type'' = Some (PStr ''scissor'') \<and> falsy_flag e ''above_shoulder'',
         ''lack_of_amplitude'', fl_lit 3 10),
      (truthy_flag e ''brushing'', ''brushing'', fl_lit 1 10),
      (truthy_flag e ''hitting'', ''hitting'', fl_lit 3 10)]"

text \<open>The rules that fired, and the score they leave: the penalties subtracted in order.\<close>

definition spec_fired :: "pydict \<Rightarrow> (string \<times> pyfloat) list" where
  "spec_fired e = map snd (filter fst (spec_form_rules e))"

definition spec_score :: "pydict \<Rightarrow> pyfloat" where
  "spec_score e = foldl fl_sub (fl_lit 10 1) (map snd (spec_fired e))"

text \<open>The distinct zone values present; an element without a zone contributes none.\<close>

definition spec_zones :: "pydict list \<Rightarrow> pyval set" where
  "spec_zones elements = {py_key z | z el. el \<in> set elements \<and> el ''zone'' = Some z}"

text \<open>The distinct tempo labels, an absent tempo counting as \<^verbatim>\<open>"moderate"\<close>.\<close>

definition spec_tempos :: "pydict list \<Rightarrow> pyval set" where
  "spec_tempos elements = (\<lambda>el. py_key (dict_get el ''tempo'' (PStr ''moderate''))) ` set elements"

text \<open>An element carrying a truthy pause flag.\<close>

definition paused :: "pydict \<Rightarrow> bool" where
  "paused el = truthy (dict_get el ''pause'' (PBool False))"

text \<open>The four groups the mapper can recognise.\<close>

definition mapped_groups :: "string set" where
  "mapped_groups = {''circles_flairs'', ''scissors_single_leg'', ''travels'', ''dismounts''}"

subsection \<open>A sample routine\<close>

text \<open>Four elements, one of each group the mapper recognises, over the three zones.\<close>

definition sample_routine :: "pydict list" where
  "sample_routine =
     [[''element_type'' \<mapsto> PStr ''circle'', ''zone'' \<mapsto> PStr ''end_left'',
       ''tempo'' \<mapsto> PStr ''fast'', ''difficulty_value'' \<mapsto> PStr ''B''],
      [''element_type'' \<mapsto> PStr ''scissor'', ''zone'' \<mapsto> PStr ''saddle'',
       ''tempo'' \<mapsto> PStr ''fast'', ''difficulty_value'' \<mapsto> PStr ''C''],
      [''element_type'' \<mapsto> PStr ''magyar'', ''zone'' \<mapsto> PStr ''end_right'',
       ''tempo'' \<mapsto> PStr ''fast'', ''difficulty_value'' \<mapsto> PStr ''D''],
      [''element_type'' \<mapsto> PStr ''dismount'', ''zone'' \<mapsto> PStr ''end_right'',
       ''tempo'' \<mapsto> PStr ''fast'', ''difficulty_value'' \<mapsto> PStr ''D'']]"

text \<open>
  The keyword-to-group mapping of the routine mapper, and the groups present in a routine:
  those of the elements whose type is one of the keywords. Any other type, or none,
  contributes no group.
\<close>

definition spec_keyword_groups :: "(string \<times> string) list" where
  "spec_keyword_groups =
     [(''circle'', ''circles_flairs''), (''flair'', ''circles_flairs''),
      (''russian'', ''circles_flairs''), (''spindle'', ''circles_flairs''),
      (''scissor'', ''scissors_single_leg''), (''single_leg'', ''scissors_single_leg''),
      (''magyar'', ''travels''), (''sivado'', ''travels''), (''travel'', ''travels''),
      (''dismount'', ''dismounts'')]"

definition spec_groups :: "pydict list \<Rightarrow> string set" where
  "spec_groups elements =
     {g. \<exists>el \<in> set elements. \<exists>k. el ''element_type'' = Some (PStr k)
           \<and> map_of spec_keyword_groups k = Some g}"

text \<open>
  Routines that fail some check: four elements of three groups only; an element of no
  known type; all four groups on two zones only, with a pause.
\<close>

definition three_group_routine :: "pydict list" where
  "three_group_routine =
     [[''element_type'' \<mapsto> PStr ''circle'', ''zone'' \<mapsto> PStr ''end_left''],
      [''element_type'' \<mapsto> PStr ''scissor'', ''zone'' \<mapsto> PStr ''saddle''],
      [''element_type'' \<mapsto> PStr ''magyar'', ''zone'' \<mapsto> PStr ''end_right''],
      [''element_type'' \<mapsto> PStr ''spindle'', ''zone'' \<mapsto> PStr ''saddle'']]"

definition unknown_routine :: "pydict list" where
  "unknown_routine = [[''element_type'' \<mapsto> PStr ''vault'', ''zone'' \<mapsto> PStr ''saddle'']]"

definition narrow_routine :: "pydict list" where
  "narrow_routine =
     [[''element_type'' \<mapsto> PStr ''flair'', ''zone'' \<mapsto> PStr ''end_left''],
      [''element_type'' \<mapsto> PStr ''single_leg'', ''zone'' \<mapsto> PStr ''saddle''],
      [''element_type'' \<mapsto> PStr ''travel'', ''zone'' \<mapsto> PStr ''saddle'',
       ''pause'' \<mapsto> PBool True],
      [''element_type'' \<mapsto> PStr ''dismount'', ''zone'' \<mapsto> PStr ''end_left'']]"

section \<open>Properties\<close>

subsection \<open>Form assessment\<close>

text \<open>The three float literals of \<^verbatim>\<open>assess_form_quality\<close>: \<^verbatim>\<open>10.0\<close>, \<^verbatim>\<open>0.3\<close> and \<^verbatim>\<open>0.1\<close>.\<close>

lemma fl_consts:
  "fl_lit 10 1 = 720575940379279360"
  "fl_lit 3 10 = 21617278211378380"
  "fl_lit 1 10 = 7205759403792794"
  by code_simp+

text \<open>Running a list of rules: the names of the fired rules, and the penalties subtracted.\<close>

lemma foldl_deduct:
  "foldl (\<lambda>st (c, n, p). deduct c n p st) st rs =
     (fst st @ map fst (map snd (filter fst rs)),
      foldl fl_sub (snd st) (map snd (map snd (filter fst rs))))"
  by (induction rs arbitrary: st) (auto simp: deduct_def)

lemma assess_as_fold:
  "assess_form_quality e =
     (let st = foldl (\<lambda>st (c, n, p). deduct c n p st) ([], fl_lit 10 1) (spec_form_rules e)
      in \<lparr>quality_score = max 0 (snd st), deductions = fst st,
          form_assessment = (if fst st = [] then ''clean'' else ''errors_present'')\<rparr>)"
  unfolding assess_form_quality_def spec_form_rules_def falsy_flag_def truthy_flag_def Let_def
  by (simp only: foldl.simps prod.case)

lemma assess_refines:
  "assess_form_quality e =
     \<lparr>quality_score = max 0 (spec_score e),
      deductions = map fst (spec_fired e),
      form_assessment = (if spec_fired e = [] then ''clean'' else ''errors_present'')\<rparr>"
  unfolding assess_as_fold foldl_deduct spec_score_def spec_fired_def Let_def
  by simp

text \<open>
  The subtractions that can occur, and the scores that can be reached after each of the six
  rules.
\<close>

lemma fl_sub_table:
  "fl_sub 720575940379279360 21617278211378380 = 698958662167900928"
  "fl_sub 720575940379279360 7205759403792794 = 713370180975486592"
  "fl_sub 713370180975486592 21617278211378380 = 691752902764108160"
  "fl_sub 713370180975486592 7205759403792794 = 706164421571693824"
  "fl_sub 706164421571693824 21617278211378380 = 684547143360315392"
  "fl_sub 698958662167900928 21617278211378380 = 677341383956522496"
  "fl_sub 698958662167900928 7205759403792794 = 691752902764108160"
  "fl_sub 691752902764108160 21617278211378380 = 670135624552729728"
  "fl_sub 691752902764108160 7205759403792794 = 684547143360315392"
  "fl_sub 684547143360315392 21617278211378380 = 662929865148936960"
  "fl_sub 677341383956522496 21617278211378380 = 655724105745144064"
  "fl_sub 677341383956522496 7205759403792794 = 670135624552729728"
  "fl_sub 670135624552729728 21617278211378380 = 648518346341351296"
  "fl_sub 670135624552729728 7205759403792794 = 662929865148936960"
  "fl_sub 662929865148936960 21617278211378380 = 641312586937558528"
  "fl_sub 655724105745144064 21617278211378380 = 634106827533765632"
  "fl_sub 655724105745144064 7205759403792794 = 648518346341351296"
  "fl_sub 648518346341351296 21617278211378380 = 626901068129972864"
  "fl_sub 648518346341351296 7205759403792794 = 641312586937558528"
  "fl_sub 641312586937558528 21617278211378380 = 619695308726180096"
  by (simp_all add: fl_sub_def round53_def rne_div_def Let_def compute_bitlen)

lemma score_stage1:
  "snd st \<in> {
      720575940379279360} \<Longrightarrow>
   snd (deduct c n (fl_lit 3 10) st) \<in> {
      698958662167900928, 720575940379279360}"
  unfolding deduct_def fl_consts
  by (cases c) (auto simp: fl_sub_table)

lemma score_stage2:
  "snd st \<in> {
      698958662167900928, 720575940379279360} \<Longrightarrow>
   snd (deduct c n (fl_lit 3 10) st) \<in> {
      677341383956522496, 698958662167900928, 720575940379279360}"
  unfolding deduct_def fl_consts
  by (cases c) (auto simp: fl_sub_table)

lemma score_stage3:
  "snd st \<in> {
      677341383956522496, 698958662167900928, 720575940379279360} \<Longrightarrow>
   snd (deduct c n (fl_lit 1 10) st) \<in> {
      670135624552729728, 677341383956522496, 691752902764108160, 698958662167900928,
      713370180975486592, 720575940379279360}"
  unfolding deduct_def fl_consts
  by (cases c) (auto simp: fl_sub_table)

lemma score_stage4:
  "snd st \<in> {
      670135624552729728, 677341383956522496, 691752902764108160, 698958662167900928,
      713370180975486592, 720575940379279360} \<Longrightarrow>
   snd (deduct c n (fl_lit 3 10) st) \<in> {
      648518346341351296, 655724105745144064, 670135624552729728, 677341383956522496,
      691752902764108160, 698958662167900928, 713370180975486592, 720575940379279360}"
  unfolding deduct_def fl_consts
  by (cases c) (auto simp: fl_sub_table)

lemma score_stage5:
  "snd st \<in> {
      648518346341351296, 655724105745144064, 670135624552729728, 677341383956522496,
      691752902764108160, 698958662167900928, 713370180975486592, 720575940379279360} \<Longrightarrow>
   snd (deduct c n (fl_lit 1 10) st) \<in> {
      641312586937558528, 648518346341351296, 655724105745144064, 662929865148936960,
      670135624552729728, 677341383956522496, 684547143360315392, 691752902764108160,
      698958662167900928, 706164421571693824, 713370180975486592, 720575940379279360}"
  unfolding deduct_def fl_consts
  by (cases c) (auto simp: fl_sub_table)

lemma score_stage6:
  "snd st \<in> {
      641312586937558528, 648518346341351296, 655724105745144064, 662929865148936960,
      670135624552729728, 677341383956522496, 684547143360315392, 691752902764108160,
      698958662167900928, 706164421571693824, 713370180975486592, 720575940379279360} \<Longrightarrow>
   snd (deduct c n (fl_lit 3 10) st) \<in> {
      619695308726180096, 626901068129972864, 634106827533765632, 641312586937558528,
      648518346341351296, 655724105745144064, 662929865148936960, 670135624552729728,
      677341383956522496, 684547143360315392, 691752902764108160, 698958662167900928,
      706164421571693824, 713370180975486592, 720575940379279360}"
  unfolding deduct_def fl_consts
  by (cases c) (auto simp: fl_sub_table)

lemma spec_score_deduct:
  "spec_score e =
     snd (foldl (\<lambda>st (c, n, p). deduct c n p st) ([], fl_lit 10 1) (spec_form_rules e))"
  by (simp add: foldl_deduct spec_score_def spec_fired_def)

lemma spec_score_reachable:
  "spec_score e \<in> {
      619695308726180096, 626901068129972864, 634106827533765632, 641312586937558528,
      648518346341351296, 655724105745144064, 662929865148936960, 670135624552729728,
      677341383956522496, 684547143360315392, 691752902764108160, 698958662167900928,
      706164421571693824, 713370180975486592, 720575940379279360}"
  unfolding spec_score_deduct spec_form_rules_def
  apply (simp only: foldl.simps prod.case)
  apply (rule score_stage6)
  apply (rule score_stage5)
  apply (rule score_stage4)
  apply (rule score_stage3)
  apply (rule score_stage2)
  apply (rule score_stage1)
  apply (simp add: fl_consts)
  done

lemma spec_score_bounds:
  "619695308726180096 \<le> spec_score e" "spec_score e \<le> 720575940379279360"
  using spec_score_reachable [of e] by auto

text \<open>The clamp \<^verbatim>\<open>max(0, quality_score)\<close> never changes the score.\<close>

lemma assess_unclamped:
  "assess_form_quality e =
     \<lparr>quality_score = spec_score e,
      deductions = map fst (spec_fired e),
      form_assessment = (if spec_fired e = [] then ''clean'' else ''errors_present'')\<rparr>"
  using spec_score_bounds(1) [of e] by (simp add: assess_refines)

lemma assess_empty:
  "assess_form_quality Map.empty =
     \<lparr>quality_score = fl_lit 10 1, deductions = [], form_assessment = ''clean''\<rparr>"
  by (simp add: assess_unclamped spec_score_def spec_fired_def spec_form_rules_def
        falsy_flag_def truthy_flag_def dict_get_def)

lemma assess_example:
  "assess_form_quality
     [''body_extended'' \<mapsto> PBool False, ''legs_straight'' \<mapsto> PBool True,
      ''toes_pointed'' \<mapsto> PBool True, ''hitting'' \<mapsto> PBool True] =
     \<lparr>quality_score = fl_sub (fl_sub (fl_lit 10 1) (fl_lit 3 10)) (fl_lit 3 10),
      deductions = [''lack_of_extension'', ''hitting''],
      form_assessment = ''errors_present''\<rparr>"
  by (simp add: assess_unclamped spec_score_def spec_fired_def spec_form_rules_def
        falsy_flag_def truthy_flag_def dict_get_def)

lemma assess_all_violated:
  "assess_form_quality
     [''element_type'' \<mapsto> PStr ''scissor'', ''body_extended'' \<mapsto> PBool False,
      ''legs_straight'' \<mapsto> PBool False, ''toes_pointed'' \<mapsto> PBool False,
      ''above_shoulder'' \<mapsto> PBool False, ''brushing'' \<mapsto> PBool True,
      ''hitting'' \<mapsto> PBool True] =
     \<lparr>quality_score =
        fl_sub (fl_sub (fl_sub (fl_sub (fl_sub (fl_sub (fl_lit 10 1) (fl_lit 3 10)) (fl_lit 3 10))
          (fl_lit 1 10)) (fl_lit 3 10)) (fl_lit 1 10)) (fl_lit 3 10),
      deductions = [''lack_of_extension'', ''bent_knees'', ''flexed_feet'',
                    ''lack_of_amplitude'', ''brushing'', ''hitting''],
      form_assessment = ''errors_present''\<rparr>"
  by (simp add: assess_unclamped spec_score_def spec_fired_def spec_form_rules_def
        falsy_flag_def truthy_flag_def dict_get_def)

lemma two_penalties:
  "fl_sub (fl_sub (fl_lit 10 1) (fl_lit 3 10)) (fl_lit 3 10) = 677341383956522496"
  by (simp add: fl_consts fl_sub_table)

lemma six_penalties:
  "fl_sub (fl_sub (fl_sub (fl_sub (fl_sub (fl_sub (fl_lit 10 1) (fl_lit 3 10)) (fl_lit 3 10))
     (fl_lit 1 10)) (fl_lit 3 10)) (fl_lit 1 10)) (fl_lit 3 10) = 619695308726180096"
  by (simp add: fl_consts fl_sub_table)

lemma fl_decimals:
  "fl_lit 47 5 = 677341383956522624"
  "fl_lit 87 10 = 626901068129972992"
  "fl_lit 9399999999999999 1000000000000000 = 677341383956522496"
  "fl_lit 8599999999999998 1000000000000000 = 619695308726180096"
  by code_simp+

text \<open>
  The rounding checked against its specification on the values of the example. The
  literals are within half a unit in the last place of the decimals they denote (the unit is
  \<open>2\<^sup>-\<^sup>5\<^sup>4\<close> at 0.3 and \<open>2\<^sup>-\<^sup>5\<^sup>6\<close> at 0.1). Between 8 and 16 the floats are the multiples of \<open>2\<^sup>-\<^sup>4\<^sup>9\<close>,
  128 units: each difference is such a multiple, within 64 units of the exact difference.
  The float \<^verbatim>\<open>9.4\<close> is a neighbour of the second difference, 76 units from the exact value.
\<close>

lemma fl_lit_nearest:
  "fl_val (fl_lit 10 1) = 10"
  "fl_lit 3 10 mod 4 = 0" "\<bar>fl_val (fl_lit 3 10) - 3 / 10\<bar> \<le> 1 / 2 ^ 55"
  "\<bar>fl_val (fl_lit 1 10) - 1 / 10\<bar> \<le> 1 / 2 ^ 57"
  "fl_lit 47 5 mod 128 = 0" "\<bar>fl_val (fl_lit 47 5) - 47 / 5\<bar> \<le> 1 / 2 ^ 50"
  by (simp_all add: fl_consts fl_decimals fl_val_def)

lemma fl_sub_nearest:
  "fl_sub (fl_lit 10 1) (fl_lit 3 10) mod 128 = 0"
  "\<bar>fl_sub (fl_lit 10 1) (fl_lit 3 10) - (fl_lit 10 1 - fl_lit 3 10)\<bar> \<le> 64"
  "fl_sub (fl_sub (fl_lit 10 1) (fl_lit 3 10)) (fl_lit 3 10) mod 128 = 0"
  "\<bar>fl_sub (fl_sub (fl_lit 10 1) (fl_lit 3 10)) (fl_lit 3 10)
      - (fl_sub (fl_lit 10 1) (fl_lit 3 10) - fl_lit 3 10)\<bar> \<le> 64"
  "fl_lit 47 5 - fl_sub (fl_sub (fl_lit 10 1) (fl_lit 3 10)) (fl_lit 3 10) = 128"
  "\<bar>fl_lit 47 5 - (fl_sub (fl_lit 10 1) (fl_lit 3 10) - fl_lit 3 10)\<bar> = 76"
  by (simp_all add: fl_consts fl_decimals fl_sub_table)

text \<open>
  Claim C1, as the code has it. \<^verbatim>\<open>assess_form_quality\<close> starts from the float \<^verbatim>\<open>10.0\<close> and
  runs the six rules in order: a falsy \<^verbatim>\<open>body_extended\<close> (\<^verbatim>\<open>lack_of_extension\<close>, 0.3), a
  falsy \<^verbatim>\<open>legs_straight\<close> (\<^verbatim>\<open>bent_knees\<close>, 0.3), a falsy \<^verbatim>\<open>toes_pointed\<close> (\<^verbatim>\<open>flexed_feet\<close>, 0.1),
  element type \<^verbatim>\<open>"scissor"\<close> with a falsy \<^verbatim>\<open>above_shoulder\<close> (\<^verbatim>\<open>lack_of_amplitude\<close>, 0.3), a
  truthy \<^verbatim>\<open>brushing\<close> (0.1) and a truthy \<^verbatim>\<open>hitting\<close> (0.3). Each rule that fires appends its
  name and subtracts its penalty in double-precision arithmetic; the label is \<^verbatim>\<open>"clean"\<close>
  iff no rule fired. The empty record yields \<^verbatim>\<open>10.0\<close>, no deduction and \<^verbatim>\<open>"clean"\<close>. The
  record of the specification yields the deductions \<^verbatim>\<open>lack_of_extension\<close> and \<^verbatim>\<open>hitting\<close> and
  the float \<^verbatim>\<open>10.0 - 0.3 - 0.3\<close>, which is the float written \<^verbatim>\<open>9.399999999999999\<close>: it lies
  within \<open>10\<^sup>-\<^sup>1\<^sup>4\<close> of 9.4 but is not the float \<^verbatim>\<open>9.4\<close>.
\<close>

theorem C1_assess_form_quality:
  "assess_form_quality e =
     \<lparr>quality_score = spec_score e,
      deductions = map fst (spec_fired e),
      form_assessment = (if spec_fired e = [] then ''clean'' else ''errors_present'')\<rparr>
   \<and> assess_form_quality Map.empty =
     \<lparr>quality_score = fl_lit 10 1, deductions = [], form_assessment = ''clean''\<rparr>
   \<and> assess_form_quality
       [''body_extended'' \<mapsto> PBool False, ''legs_straight'' \<mapsto> PBool True,
        ''toes_pointed'' \<mapsto> PBool True, ''hitting'' \<mapsto> PBool True] =
     \<lparr>quality_score = fl_lit 9399999999999999 1000000000000000,
      deductions = [''lack_of_extension'', ''hitting''],
      form_assessment = ''errors_present''\<rparr>
   \<and> fl_lit 9399999999999999 1000000000000000
       = fl_sub (fl_sub (fl_lit 10 1) (fl_lit 3 10)) (fl_lit 3 10)
   \<and> \<bar>fl_val (fl_lit 9399999999999999 1000000000000000) - 94 / 10\<bar> < 1 / 10 ^ 14"
proof -
  have general: "assess_form_quality e =
     \<lparr>quality_score = spec_score e,
      deductions = map fst (spec_fired e),
      form_assessment = (if spec_fired e = [] then ''clean'' else ''errors_present'')\<rparr>"
    by (rule assess_unclamped)
  have example: "assess_form_quality
       [''body_extended'' \<mapsto> PBool False, ''legs_straight'' \<mapsto> PBool True,
        ''toes_pointed'' \<mapsto> PBool True, ''hitting'' \<mapsto> PBool True] =
     \<lparr>quality_score = fl_lit 9399999999999999 1000000000000000,
      deductions = [''lack_of_extension'', ''hitting''],
      form_assessment = ''errors_present''\<rparr>"
    by (simp only: assess_example two_penalties fl_decimals)
  have written: "fl_lit 9399999999999999 1000000000000000
       = fl_sub (fl_sub (fl_lit 10 1) (fl_lit 3 10)) (fl_lit 3 10)"
    by (simp only: two_penalties fl_decimals)
  have near: "\<bar>fl_val (fl_lit 9399999999999999 1000000000000000) - 94 / 10\<bar> < 1 / 10 ^ 14"
    by (simp add: fl_decimals fl_val_def)
  from general assess_empty example written near show ?thesis
    by (intro conjI)
qed

text \<open>
  Claim C1 as stated fails: the score of the record of the specification is not the float
  \<^verbatim>\<open>9.4\<close>.
\<close>

theorem C1_score_not_9_4_counterexample:
  "quality_score (assess_form_quality
     [''body_extended'' \<mapsto> PBool False, ''legs_straight'' \<mapsto> PBool True,
      ''toes_pointed'' \<mapsto> PBool True, ''hitting'' \<mapsto> PBool True]) \<noteq> fl_lit 47 5"
  by (simp add: assess_example two_penalties fl_decimals)

text \<open>
  Claim C5, as the code has it. The record that violates every rule (element type
  \<^verbatim>\<open>"scissor"\<close>; \<^verbatim>\<open>body_extended\<close>, \<^verbatim>\<open>legs_straight\<close>, \<^verbatim>\<open>toes_pointed\<close> and \<^verbatim>\<open>above_shoulder\<close>
  false; \<^verbatim>\<open>brushing\<close> and \<^verbatim>\<open>hitting\<close> true) fires six rules, whose penalties add up to 1.4: its
  score is the float \<^verbatim>\<open>10.0 - 0.3 - 0.3 - 0.1 - 0.3 - 0.1 - 0.3\<close>, written
  \<^verbatim>\<open>8.599999999999998\<close>, within \<open>10\<^sup>-\<^sup>1\<^sup>4\<close> of 8.6. It is the lowest score of all, so the score of
  every record is at least that and never negative.
\<close>

theorem C5_score_floor:
  "assess_form_quality
     [''element_type'' \<mapsto> PStr ''scissor'', ''body_extended'' \<mapsto> PBool False,
      ''legs_straight'' \<mapsto> PBool False, ''toes_pointed'' \<mapsto> PBool False,
      ''above_shoulder'' \<mapsto> PBool False, ''brushing'' \<mapsto> PBool True,
      ''hitting'' \<mapsto> PBool True] =
     \<lparr>quality_score = fl_lit 8599999999999998 1000000000000000,
      deductions = [''lack_of_extension'', ''bent_knees'', ''flexed_feet'',
                    ''lack_of_amplitude'', ''brushing'', ''hitting''],
      form_assessment = ''errors_present''\<rparr>
   \<and> fl_lit 8599999999999998 1000000000000000 =
       fl_sub (fl_sub (fl_sub (fl_sub (fl_sub (fl_sub (fl_lit 10 1) (fl_lit 3 10)) (fl_lit 3 10))
         (fl_lit 1 10)) (fl_lit 3 10)) (fl_lit 1 10)) (fl_lit 3 10)
   \<and> \<bar>fl_val (fl_lit 8599999999999998 1000000000000000) - 86 / 10\<bar> < 1 / 10 ^ 14
   \<and> fl_lit 8599999999999998 1000000000000000 \<le> quality_score (assess_form_quality e)
   \<and> 0 \<le> quality_score (assess_form_quality e)"
proof -
  have example: "assess_form_quality
     [''element_type'' \<mapsto> PStr ''scissor'', ''body_extended'' \<mapsto> PBool False,
      ''legs_straight'' \<mapsto> PBool False, ''toes_pointed'' \<mapsto> PBool False,
      ''above_shoulder'' \<mapsto> PBool False, ''brushing'' \<mapsto> PBool True,
      ''hitting'' \<mapsto> PBool True] =
     \<lparr>quality_score = fl_lit 8599999999999998 1000000000000000,
      deductions = [''lack_of_extension'', ''bent_knees'', ''flexed_feet'',
                    ''lack_of_amplitude'', ''brushing'', ''hitting''],
      form_assessment = ''errors_present''\<rparr>"
    by (simp only: assess_all_violated six_penalties fl_decimals)
  have written: "fl_lit 8599999999999998 1000000000000000 =
       fl_sub (fl_sub (fl_sub (fl_sub (fl_sub (fl_sub (fl_lit 10 1) (fl_lit 3 10)) (fl_lit 3 10))
         (fl_lit 1 10)) (fl_lit 3 10)) (fl_lit 1 10)) (fl_lit 3 10)"
    by (simp only: six_penalties fl_decimals)
  have near: "\<bar>fl_val (fl_lit 8599999999999998 1000000000000000) - 86 / 10\<bar> < 1 / 10 ^ 14"
    by (simp add: fl_decimals fl_val_def)
  have lowest: "fl_lit 8599999999999998 1000000000000000 \<le> quality_score (assess_form_quality e)"
    using spec_score_bounds(1) [of e] by (simp add: assess_unclamped fl_decimals)
  then have nonneg: "0 \<le> quality_score (assess_form_quality e)"
    by (simp add: fl_decimals)
  from example written near lowest nonneg show ?thesis
    by (intro conjI)
qed

text \<open>
  Claim C5 as stated fails: the score of the record that violates every rule is not the
  float \<^verbatim>\<open>8.7\<close>; it is below 8.7 by more than 0.09.
\<close>

theorem C5_score_not_8_7_counterexample:
  "quality_score (assess_form_quality
     [''element_type'' \<mapsto> PStr ''scissor'', ''body_extended'' \<mapsto> PBool False,
      ''legs_straight'' \<mapsto> PBool False, ''toes_pointed'' \<mapsto> PBool False,
      ''above_shoulder'' \<mapsto> PBool False, ''brushing'' \<mapsto> PBool True,
      ''hitting'' \<mapsto> PBool True]) \<noteq> fl_lit 87 10
   \<and> fl_val (quality_score (assess_form_quality
     [''element_type'' \<mapsto> PStr ''scissor'', ''body_extended'' \<mapsto> PBool False,
      ''legs_straight'' \<mapsto> PBool False, ''toes_pointed'' \<mapsto> PBool False,
      ''above_shoulder'' \<mapsto> PBool False, ''brushing'' \<mapsto> PBool True,
      ''hitting'' \<mapsto> PBool True])) < 87 / 10 - 9 / 100"
  by (simp add: assess_all_violated six_penalties fl_decimals fl_val_def)

subsection \<open>Spatial coverage\<close>

lemma spec_zones_Nil: "spec_zones [] = {}"
  by (simp add: spec_zones_def)

lemma spec_zones_Cons:
  "spec_zones (el # els) =
     (case el ''zone'' of None \<Rightarrow> spec_zones els | Some z \<Rightarrow> insert (py_key z) (spec_zones els))"
  by (auto simp: spec_zones_def split: option.splits)

lemma foldl_add_zone: "foldl add_zone zs els = zs \<union> spec_zones els"
  by (induction els arbitrary: zs) (auto simp: spec_zones_Nil spec_zones_Cons add_zone_def
        split: option.splits)

lemma zones_covered_spec: "zones_covered (analyze_spatial_coverage els) = spec_zones els"
  by (simp add: analyze_spatial_coverage_def foldl_add_zone Let_def)

lemma finite_spec_zones: "finite (spec_zones els)"
  by (induction els) (auto simp: spec_zones_Nil spec_zones_Cons split: option.splits)

text \<open>
  Claim C2. The zones covered are the distinct zone values present, an element without the
  key \<^verbatim>\<open>zone\<close> contributing none. \<^verbatim>\<open>coverage_complete\<close> holds iff the three canonical names are
  among them, \<^verbatim>\<open>all_sections_used\<close> iff there are at least three of them. So three distinct
  strings none of which is canonical give \<^verbatim>\<open>all_sections_used\<close> without
  \<^verbatim>\<open>coverage_complete\<close>, and the routine with the zones \<^verbatim>\<open>end_left\<close>, \<^verbatim>\<open>saddle\<close>, \<^verbatim>\<open>end_right\<close>,
  \<^verbatim>\<open>end_left\<close> has complete coverage.
\<close>

theorem C2_spatial_coverage:
  "zones_covered (analyze_spatial_coverage els) = spec_zones els
   \<and> coverage_complete (analyze_spatial_coverage els) =
       ({PStr ''end_left'', PStr ''saddle'', PStr ''end_right''} \<subseteq> spec_zones els)
   \<and> all_sections_used (analyze_spatial_coverage els) = (3 \<le> card (spec_zones els))
   \<and> (spec_zones els = {PStr a, PStr b, PStr c} \<and> a \<noteq> b \<and> a \<noteq> c \<and> b \<noteq> c
        \<and> {a, b, c} \<inter> {''end_left'', ''saddle'', ''end_right''} = {}
      \<longrightarrow> all_sections_used (analyze_spatial_coverage els)
          \<and> \<not> coverage_complete (analyze_spatial_coverage els))
   \<and> coverage_complete (analyze_spatial_coverage
        [[''zone'' \<mapsto> PStr ''end_left''], [''zone'' \<mapsto> PStr ''saddle''],
         [''zone'' \<mapsto> PStr ''end_right''], [''zone'' \<mapsto> PStr ''end_left'']])"
proof -
  have covered: "zones_covered (analyze_spatial_coverage els) = spec_zones els"
    by (rule zones_covered_spec)
  have complete: "coverage_complete (analyze_spatial_coverage els) =
       ({PStr ''end_left'', PStr ''saddle'', PStr ''end_right''} \<subseteq> spec_zones els)"
    by (simp add: analyze_spatial_coverage_def foldl_add_zone Let_def)
  have used: "all_sections_used (analyze_spatial_coverage els) = (3 \<le> card (spec_zones els))"
    by (simp add: analyze_spatial_coverage_def foldl_add_zone Let_def)
  have three: "spec_zones els = {PStr a, PStr b, PStr c} \<and> a \<noteq> b \<and> a \<noteq> c \<and> b \<noteq> c
        \<and> {a, b, c} \<inter> {''end_left'', ''saddle'', ''end_right''} = {}
      \<longrightarrow> all_sections_used (analyze_spatial_coverage els)
          \<and> \<not> coverage_complete (analyze_spatial_coverage els)"
  proof
    assume h: "spec_zones els = {PStr a, PStr b, PStr c} \<and> a \<noteq> b \<and> a \<noteq> c \<and> b \<noteq> c
        \<and> {a, b, c} \<inter> {''end_left'', ''saddle'', ''end_right''} = {}"
    then have "card (spec_zones els) = 3"
      by simp
    moreover from h have "PStr ''end_left'' \<notin> spec_zones els"
      by auto
    ultimately show "all_sections_used (analyze_spatial_coverage els)
          \<and> \<not> coverage_complete (analyze_spatial_coverage els)"
      by (simp add: used complete)
  qed
  have dup: "coverage_complete (analyze_spatial_coverage
        [[''zone'' \<mapsto> PStr ''end_left''], [''zone'' \<mapsto> PStr ''saddle''],
         [''zone'' \<mapsto> PStr ''end_right''], [''zone'' \<mapsto> PStr ''end_left'']])"
    by (simp add: analyze_spatial_coverage_def add_zone_def Let_def)
  from covered complete used three dup show ?thesis
    by (intro conjI)
qed

text \<open>
  The routine with the zones \<^verbatim>\<open>left\<close>, \<^verbatim>\<open>middle\<close>, \<^verbatim>\<open>right\<close> and one element without a zone:
  three sections used, coverage not complete.
\<close>

theorem C2_spatial_coverage_witness:
  "spec_zones [[''zone'' \<mapsto> PStr ''left''], [''zone'' \<mapsto> PStr ''middle''],
               [''element_type'' \<mapsto> PStr ''circle''], [''zone'' \<mapsto> PStr ''right'']]
     = {PStr ''left'', PStr ''middle'', PStr ''right''}
   \<and> all_sections_used (analyze_spatial_coverage
        [[''zone'' \<mapsto> PStr ''left''], [''zone'' \<mapsto> PStr ''middle''],
         [''element_type'' \<mapsto> PStr ''circle''], [''zone'' \<mapsto> PStr ''right'']])
   \<and> \<not> coverage_complete (analyze_spatial_coverage
        [[''zone'' \<mapsto> PStr ''left''], [''zone'' \<mapsto> PStr ''middle''],
         [''element_type'' \<mapsto> PStr ''circle''], [''zone'' \<mapsto> PStr ''right'']])"
proof -
  have zs: "spec_zones [[''zone'' \<mapsto> PStr ''left''], [''zone'' \<mapsto> PStr ''middle''],
               [''element_type'' \<mapsto> PStr ''circle''], [''zone'' \<mapsto> PStr ''right'']]
     = {PStr ''left'', PStr ''middle'', PStr ''right''}"
    by (simp add: spec_zones_Nil spec_zones_Cons)
  with C2_spatial_coverage [of "[[''zone'' \<mapsto> PStr ''left''], [''zone'' \<mapsto> PStr ''middle''],
               [''element_type'' \<mapsto> PStr ''circle''], [''zone'' \<mapsto> PStr ''right'']]"
         "''left''" "''middle''" "''right''"]
  show ?thesis
    by simp
qed

subsection \<open>Tempo strategy\<close>

lemma rhythm_pattern_spec:
  "rhythm_pattern (analyze_tempo_strategy rs) =
     (if card (spec_tempos rs) = 1 then ''metronomic'' else ''syncopated'')"
  by (simp add: analyze_tempo_strategy_def spec_tempos_def Let_def image_image)

lemma continuity_spec:
  "continuity_maintained (analyze_tempo_strategy rs) = (\<not> (\<exists>el \<in> set rs. paused el))"
  by (simp add: analyze_tempo_strategy_def paused_def Let_def list_ex_iff)

lemma fatigue_spec:
  "fatigue_risk_zones (analyze_tempo_strategy rs) =
     (if 8 < length rs then [''routine_end''] else [])"
  by (simp add: analyze_tempo_strategy_def Let_def)

text \<open>
  On a routine that is not empty the pattern is \<^verbatim>\<open>"metronomic"\<close> iff there is exactly one
  distinct tempo label and \<^verbatim>\<open>"syncopated"\<close> iff there are two or more.
\<close>

lemma rhythm_nonempty:
  assumes "rs \<noteq> []"
  shows "(rhythm_pattern (analyze_tempo_strategy rs) = ''metronomic'') = (card (spec_tempos rs) = 1)"
    and "(rhythm_pattern (analyze_tempo_strategy rs) = ''syncopated'') = (2 \<le> card (spec_tempos rs))"
proof -
  from assms have "0 < card (spec_tempos rs)"
    by (simp add: spec_tempos_def card_gt_0_iff)
  then show
    "(rhythm_pattern (analyze_tempo_strategy rs) = ''metronomic'') = (card (spec_tempos rs) = 1)"
    "(rhythm_pattern (analyze_tempo_strategy rs) = ''syncopated'') = (2 \<le> card (spec_tempos rs))"
    by (auto simp: rhythm_pattern_spec)
qed

text \<open>
  Claim C3 at the empty routine: there is no tempo label at all, neither exactly one nor two
  or more, and the pattern returned is \<^verbatim>\<open>"syncopated"\<close>, not the initial \<^verbatim>\<open>"unknown"\<close>.
\<close>

theorem C3_empty_routine_syncopated:
  "spec_tempos [] = {}
   \<and> card (spec_tempos []) < 2
   \<and> rhythm_pattern (analyze_tempo_strategy []) = ''syncopated''"
  by (simp add: rhythm_pattern_spec spec_tempos_def)

text \<open>
  Claim C6. Continuity is maintained iff no element carries a truthy pause flag, so one
  paused element breaks it whatever the other elements are; the fatigue-risk zones are
  \<^verbatim>\<open>["routine_end"]\<close> when the routine has more than 8 elements and empty otherwise.
\<close>

theorem C6_continuity_and_fatigue:
  "continuity_maintained (analyze_tempo_strategy rs) = (\<forall>el \<in> set rs. \<not> paused el)
   \<and> (paused el \<longrightarrow> \<not> continuity_maintained (analyze_tempo_strategy (before @ el # after)))
   \<and> (''routine_end'' \<in> set (fatigue_risk_zones (analyze_tempo_strategy rs))) = (8 < length rs)
   \<and> (\<not> 8 < length rs \<longrightarrow> fatigue_risk_zones (analyze_tempo_strategy rs) = [])
   \<and> (8 < length rs \<longrightarrow> fatigue_risk_zones (analyze_tempo_strategy rs) = [''routine_end''])"
  by (simp add: continuity_spec fatigue_spec)

text \<open>
  Nine elements, the third one paused: continuity is broken and the end of the routine is
  flagged. The same routine without its last element is not flagged.
\<close>

theorem C6_continuity_and_fatigue_witness:
  "paused [''pause'' \<mapsto> PBool True]
   \<and> \<not> continuity_maintained (analyze_tempo_strategy
        ([Map.empty, Map.empty] @ [''pause'' \<mapsto> PBool True] # replicate 6 Map.empty))
   \<and> 8 < length ([Map.empty, Map.empty] @ [''pause'' \<mapsto> PBool True] # replicate 6 Map.empty)
   \<and> fatigue_risk_zones (analyze_tempo_strategy
        ([Map.empty, Map.empty] @ [''pause'' \<mapsto> PBool True] # replicate 6 Map.empty))
       = [''routine_end'']
   \<and> \<not> 8 < length ([Map.empty, Map.empty] @ [''pause'' \<mapsto> PBool True] # replicate 5 Map.empty)
   \<and> fatigue_risk_zones (analyze_tempo_strategy
        ([Map.empty, Map.empty] @ [''pause'' \<mapsto> PBool True] # replicate 5 Map.empty)) = []"
proof -
  have p: "paused [''pause'' \<mapsto> PBool True]"
    by (simp add: paused_def dict_get_def)
  have l9: "8 < length ([Map.empty, Map.empty] @ [''pause'' \<mapsto> PBool True] # replicate 6 Map.empty)"
    by simp
  have l8: "\<not> 8 < length ([Map.empty, Map.empty] @ [''pause'' \<mapsto> PBool True] # replicate 5 Map.empty)"
    by simp
  from p l9 l8
    C6_continuity_and_fatigue [of "[Map.empty, Map.empty] @ [''pause'' \<mapsto> PBool True] # replicate 6 Map.empty"
      "[''pause'' \<mapsto> PBool True]" "[Map.empty, Map.empty]" "replicate 6 Map.empty"]
    C6_continuity_and_fatigue [of "[Map.empty, Map.empty] @ [''pause'' \<mapsto> PBool True] # replicate 5 Map.empty"
      "[''pause'' \<mapsto> PBool True]" "[Map.empty, Map.empty]" "replicate 5 Map.empty"]
  show ?thesis
    by blast
qed

text \<open>
  Claim C10. The pattern returned is \<^verbatim>\<open>"metronomic"\<close> or \<^verbatim>\<open>"syncopated"\<close>, never the initial
  value \<^verbatim>\<open>"unknown"\<close>; the empty routine yields \<^verbatim>\<open>"syncopated"\<close>.
\<close>

theorem C10_rhythm_never_unknown:
  "(rhythm_pattern (analyze_tempo_strategy rs) = ''metronomic''
      \<or> rhythm_pattern (analyze_tempo_strategy rs) = ''syncopated'')
   \<and> rhythm_pattern (analyze_tempo_strategy rs) \<noteq> ''unknown''
   \<and> card (spec_tempos []) = 0
   \<and> rhythm_pattern (analyze_tempo_strategy []) = ''syncopated''"
  by (simp add: rhythm_pattern_spec spec_tempos_def)

subsection \<open>Routine structure\<close>

lemma fail_if_fst: "fst (fail_if c note st) = (fst st \<and> \<not> c)"
  by (simp add: fail_if_def)

lemma fail_if_snd: "snd (fail_if c note st) = snd st @ (if c then [note] else [])"
  by (simp add: fail_if_def)

lemma group_of_mapped: "group_of v = Some g \<Longrightarrow> g \<in> mapped_groups"
  by (auto simp: group_of_def mapped_groups_def split: if_splits)

lemma foldl_map_element_groups:
  "fst (foldl map_element acc els) \<subseteq> fst acc \<union> mapped_groups"
proof (induction els arbitrary: acc)
  case Nil
  show ?case by simp
next
  case (Cons el els)
  have "fst (map_element acc el) \<subseteq> fst acc \<union> mapped_groups"
    by (auto simp: map_element_def Let_def split: option.splits dest: group_of_mapped)
  with Cons [of "map_element acc el"] show ?case
    by auto
qed

lemma groups_present_mapped:
  "element_groups_present (map_routine_structure els sp tp) \<subseteq> mapped_groups"
  using foldl_map_element_groups [of "({}, Map.empty)" els]
  by (simp add: map_routine_structure_def Let_def)

lemma card_mapped_groups: "card mapped_groups = 4"
  by (simp add: mapped_groups_def)

lemma structure_valid_spec:
  "structure_valid (map_routine_structure els sp tp) =
     (4 \<le> card (element_groups_present (map_routine_structure els sp tp))
      \<and> (sp \<longrightarrow> coverage_complete (analyze_spatial_coverage els))
      \<and> (tp \<longrightarrow> continuity_maintained (analyze_tempo_strategy els)))"
  by (auto simp: map_routine_structure_def Let_def fail_if_fst)

lemma notes_spec:
  "analysis_notes (map_routine_structure els sp tp) =
     (if card (element_groups_present (map_routine_structure els sp tp)) < 4
      then [''Insufficient element group variety - need 4 groups''] else [])
     @ (if sp \<and> \<not> coverage_complete (analyze_spatial_coverage els)
        then [''Incomplete zone coverage - must use all 3 sections''] else [])
     @ (if tp \<and> \<not> continuity_maintained (analyze_tempo_strategy els)
        then [''Routine has pauses - continuity required''] else [])"
  by (simp add: map_routine_structure_def Let_def fail_if_snd)

text \<open>The groups collected by the loop are the groups of the keyword table.\<close>

lemma group_of_keyword:
  "group_of v = (case v of PStr k \<Rightarrow> map_of spec_keyword_groups k | _ \<Rightarrow> None)"
  by (cases v) (auto simp: group_of_def spec_keyword_groups_def)

lemma group_of_element_type:
  "group_of (dict_get el ''element_type'' (PStr ''unknown'')) = Some g
     \<longleftrightarrow> (\<exists>k. el ''element_type'' = Some (PStr k) \<and> map_of spec_keyword_groups k = Some g)"
proof (cases "el ''element_type''")
  case None
  then show ?thesis
    by (simp add: dict_get_def group_of_keyword spec_keyword_groups_def)
next
  case (Some v)
  then show ?thesis
    by (cases v) (simp_all add: dict_get_def group_of_keyword)
qed

lemma spec_groups_Nil: "spec_groups [] = {}"
  by (simp add: spec_groups_def)

lemma spec_groups_Cons:
  "spec_groups (el # els) =
     (case group_of (dict_get el ''element_type'' (PStr ''unknown'')) of
        None \<Rightarrow> spec_groups els | Some g \<Rightarrow> insert g (spec_groups els))"
proof (cases "group_of (dict_get el ''element_type'' (PStr ''unknown''))")
  case None
  then have "\<not> (\<exists>k. el ''element_type'' = Some (PStr k) \<and> map_of spec_keyword_groups k = Some g)"
    for g
    using group_of_element_type [of el g] by simp
  with None show ?thesis
    by (auto simp: spec_groups_def)
next
  case (Some g)
  then have "(\<exists>k. el ''element_type'' = Some (PStr k) \<and> map_of spec_keyword_groups k = Some g')
      \<longleftrightarrow> g' = g" for g'
    using group_of_element_type [of el g'] by auto
  with Some show ?thesis
    by (auto simp: spec_groups_def)
qed

lemma foldl_map_element_spec:
  "fst (foldl map_element acc els) = fst acc \<union> spec_groups els"
proof (induction els arbitrary: acc)
  case Nil
  show ?case by (simp add: spec_groups_Nil)
next
  case (Cons el els)
  have "fst (map_element acc el) =
      (case group_of (dict_get el ''element_type'' (PStr ''unknown'')) of
         None \<Rightarrow> fst acc | Some g \<Rightarrow> insert g (fst acc))"
    by (simp add: map_element_def Let_def)
  with Cons [of "map_element acc el"] show ?case
    by (auto simp: spec_groups_Cons split: option.splits)
qed

lemma groups_present_spec:
  "element_groups_present (map_routine_structure els sp tp) = spec_groups els"
  using foldl_map_element_spec [of "({}, Map.empty)" els]
  by (simp add: map_routine_structure_def Let_def)

lemma coverage_complete_spec:
  "coverage_complete (analyze_spatial_coverage els) =
     ({PStr ''end_left'', PStr ''saddle'', PStr ''end_right''} \<subseteq> spec_zones els)"
  by (simp add: analyze_spatial_coverage_def foldl_add_zone Let_def)

text \<open>
  Claim C4. The groups present are those the keyword table gives to the element types of
  the routine. \<^verbatim>\<open>structure_valid\<close> is the conjunction of: at least 4 distinct groups
  present; when the spatial analysis is included, the validator's \<^verbatim>\<open>coverage_complete\<close> (the
  three canonical zones are among the zones of the elements); when the temporal analysis is
  included, the validator's \<^verbatim>\<open>continuity_maintained\<close> (no element is paused). Each failing
  check appends its own note, in this order. With fewer than 4 groups the structure is
  invalid and carries the insufficient-variety note whatever the two flags are, and
  \<^verbatim>\<open>synthesis_ready\<close> equals \<^verbatim>\<open>structure_valid\<close>.
\<close>

theorem C4_structure_valid:
  "element_groups_present (map_routine_structure els sp tp) = spec_groups els
   \<and> structure_valid (map_routine_structure els sp tp) =
     (4 \<le> card (spec_groups els)
      \<and> (sp \<longrightarrow> coverage_complete (analyze_spatial_coverage els))
      \<and> (tp \<longrightarrow> continuity_maintained (analyze_tempo_strategy els)))
   \<and> structure_valid (map_routine_structure els sp tp) =
     (4 \<le> card (spec_groups els)
      \<and> (sp \<longrightarrow> {PStr ''end_left'', PStr ''saddle'', PStr ''end_right''} \<subseteq> spec_zones els)
      \<and> (tp \<longrightarrow> (\<forall>el \<in> set els. \<not> paused el)))
   \<and> analysis_notes (map_routine_structure els sp tp) =
     (if card (spec_groups els) < 4
      then [''Insufficient element group variety - need 4 groups''] else [])
     @ (if sp \<and> \<not> coverage_complete (analyze_spatial_coverage els)
        then [''Incomplete zone coverage - must use all 3 sections''] else [])
     @ (if tp \<and> \<not> continuity_maintained (analyze_tempo_strategy els)
        then [''Routine has pauses - continuity required''] else [])
   \<and> (card (spec_groups els) < 4 \<longrightarrow>
        \<not> structure_valid (map_routine_structure els sp tp)
        \<and> ''Insufficient element group variety - need 4 groups''
            \<in> set (analysis_notes (map_routine_structure els sp tp)))
   \<and> synthesis_ready (map_routine_structure els sp tp)
       = structure_valid (map_routine_structure els sp tp)
   \<and> spatial_coverage (map_routine_structure els sp tp)
       = (if sp then Some (analyze_spatial_coverage els) else None)
   \<and> temporal_strategy (map_routine_structure els sp tp)
       = (if tp then Some (analyze_tempo_strategy els) else None)"
proof -
  have groups: "element_groups_present (map_routine_structure els sp tp) = spec_groups els"
    by (rule groups_present_spec)
  have valid: "structure_valid (map_routine_structure els sp tp) =
     (4 \<le> card (spec_groups els)
      \<and> (sp \<longrightarrow> coverage_complete (analyze_spatial_coverage els))
      \<and> (tp \<longrightarrow> continuity_maintained (analyze_tempo_strategy els)))"
    using structure_valid_spec [of els sp tp] by (simp only: groups)
  have elements: "structure_valid (map_routine_structure els sp tp) =
     (4 \<le> card (spec_groups els)
      \<and> (sp \<longrightarrow> {PStr ''end_left'', PStr ''saddle'', PStr ''end_right''} \<subseteq> spec_zones els)
      \<and> (tp \<longrightarrow> (\<forall>el \<in> set els. \<not> paused el)))"
    unfolding valid coverage_complete_spec continuity_spec by simp
  have noted: "analysis_notes (map_routine_structure els sp tp) =
     (if card (spec_groups els) < 4
      then [''Insufficient element group variety - need 4 groups''] else [])
     @ (if sp \<and> \<not> coverage_complete (analyze_spatial_coverage els)
        then [''Incomplete zone coverage - must use all 3 sections''] else [])
     @ (if tp \<and> \<not> continuity_maintained (analyze_tempo_strategy els)
        then [''Routine has pauses - continuity required''] else [])"
    using notes_spec [of els sp tp] by (simp only: groups)
  have few: "card (spec_groups els) < 4 \<longrightarrow>
        \<not> structure_valid (map_routine_structure els sp tp)
        \<and> ''Insufficient element group variety - need 4 groups''
            \<in> set (analysis_notes (map_routine_structure els sp tp))"
    by (simp add: valid noted)
  have ready: "synthesis_ready (map_routine_structure els sp tp)
       = structure_valid (map_routine_structure els sp tp)"
    by (simp add: map_routine_structure_def Let_def)
  have spatial: "spatial_coverage (map_routine_structure els sp tp)
       = (if sp then Some (analyze_spatial_coverage els) else None)"
    by (simp add: map_routine_structure_def Let_def)
  have temporal: "temporal_strategy (map_routine_structure els sp tp)
       = (if tp then Some (analyze_tempo_strategy els) else None)"
    by (simp add: map_routine_structure_def Let_def)
  from groups valid elements noted few ready spatial temporal show ?thesis
    by (intro conjI)
qed

lemma sample_groups:
  "element_groups_present (map_routine_structure sample_routine sp tp) =
     {''circles_flairs'', ''scissors_single_leg'', ''travels'', ''dismounts''}"
  by (auto simp: map_routine_structure_def sample_routine_def map_element_def group_of_def
        dict_get_def Let_def)

lemma sample_coverage: "coverage_complete (analyze_spatial_coverage sample_routine)"
  by (simp add: analyze_spatial_coverage_def sample_routine_def add_zone_def Let_def)

lemma sample_continuity: "continuity_maintained (analyze_tempo_strategy sample_routine)"
  by (simp add: continuity_spec sample_routine_def paused_def dict_get_def)

lemma three_group_facts:
  "spec_groups three_group_routine = {''circles_flairs'', ''scissors_single_leg'', ''travels''}"
  "coverage_complete (analyze_spatial_coverage three_group_routine)"
  "continuity_maintained (analyze_tempo_strategy three_group_routine)"
  by (auto simp: three_group_routine_def spec_groups_Nil spec_groups_Cons group_of_def
        dict_get_def analyze_spatial_coverage_def add_zone_def Let_def continuity_spec paused_def)

lemma unknown_facts: "spec_groups unknown_routine = {}"
  by (simp add: unknown_routine_def spec_groups_Nil spec_groups_Cons group_of_def dict_get_def)

lemma narrow_facts:
  "spec_groups narrow_routine =
     {''circles_flairs'', ''scissors_single_leg'', ''travels'', ''dismounts''}"
  "\<not> coverage_complete (analyze_spatial_coverage narrow_routine)"
  "\<not> continuity_maintained (analyze_tempo_strategy narrow_routine)"
  by (auto simp: narrow_routine_def spec_groups_Nil spec_groups_Cons group_of_def
        dict_get_def analyze_spatial_coverage_def add_zone_def Let_def continuity_spec paused_def)

text \<open>
  The sample routine is valid with both analyses included. Four elements of three groups
  are invalid although coverage and continuity hold, and so is an element of an unknown
  type with both analyses left out; each carries the insufficient-variety note alone. The
  routine on two zones with a pause is valid with both analyses left out, and fails exactly
  the checks that are included.
\<close>

theorem C4_structure_valid_witness:
  "4 \<le> card (spec_groups sample_routine)
   \<and> coverage_complete (analyze_spatial_coverage sample_routine)
   \<and> continuity_maintained (analyze_tempo_strategy sample_routine)
   \<and> structure_valid (map_routine_structure sample_routine True True)
   \<and> synthesis_ready (map_routine_structure sample_routine True True)
   \<and> analysis_notes (map_routine_structure sample_routine True True) = []
   \<and> card (spec_groups three_group_routine) < 4
   \<and> coverage_complete (analyze_spatial_coverage three_group_routine)
   \<and> continuity_maintained (analyze_tempo_strategy three_group_routine)
   \<and> \<not> structure_valid (map_routine_structure three_group_routine True True)
   \<and> \<not> synthesis_ready (map_routine_structure three_group_routine True True)
   \<and> analysis_notes (map_routine_structure three_group_routine True True)
       = [''Insufficient element group variety - need 4 groups'']
   \<and> card (spec_groups unknown_routine) < 4
   \<and> \<not> structure_valid (map_routine_structure unknown_routine False False)
   \<and> analysis_notes (map_routine_structure unknown_routine False False)
       = [''Insufficient element group variety - need 4 groups'']
   \<and> 4 \<le> card (spec_groups narrow_routine)
   \<and> structure_valid (map_routine_structure narrow_routine False False)
   \<and> analysis_notes (map_routine_structure narrow_routine True False)
       = [''Incomplete zone coverage - must use all 3 sections'']
   \<and> analysis_notes (map_routine_structure narrow_routine False True)
       = [''Routine has pauses - continuity required'']
   \<and> \<not> structure_valid (map_routine_structure narrow_routine True True)
   \<and> analysis_notes (map_routine_structure narrow_routine True True)
       = [''Incomplete zone coverage - must use all 3 sections'',
          ''Routine has pauses - continuity required'']"
proof -
  have sample: "spec_groups sample_routine =
      {''circles_flairs'', ''scissors_single_leg'', ''travels'', ''dismounts''}"
    using sample_groups [of True True] by (simp only: groups_present_spec)
  have four: "4 \<le> card (spec_groups sample_routine)" "4 \<le> card (spec_groups narrow_routine)"
    by (simp_all add: sample narrow_facts)
  have few: "card (spec_groups three_group_routine) < 4" "card (spec_groups unknown_routine) < 4"
    by (simp_all add: three_group_facts unknown_facts)
  from four few sample_coverage sample_continuity three_group_facts(2,3) narrow_facts(2,3)
    C4_structure_valid [of sample_routine True True]
    C4_structure_valid [of three_group_routine True True]
    C4_structure_valid [of unknown_routine False False]
    C4_structure_valid [of narrow_routine False False]
    C4_structure_valid [of narrow_routine True False]
    C4_structure_valid [of narrow_routine False True]
    C4_structure_valid [of narrow_routine True True]
  show ?thesis
    by simp
qed

text \<open>
  Claim C9. No element type is mapped to the group \<^verbatim>\<open>spindles_handstands\<close> (\<^verbatim>\<open>spindle\<close> goes
  to \<^verbatim>\<open>circles_flairs\<close>), although it is one of the five groups of the taxonomy. So the
  groups present are among \<^verbatim>\<open>circles_flairs\<close>, \<^verbatim>\<open>scissors_single_leg\<close>, \<^verbatim>\<open>travels\<close> and
  \<^verbatim>\<open>dismounts\<close>, at most four, and a valid structure shows exactly these four.
\<close>

theorem C9_no_spindles_handstands:
  "''spindles_handstands'' \<notin> element_groups_present (map_routine_structure els sp tp)
   \<and> element_groups_present (map_routine_structure els sp tp)
       \<subseteq> {''circles_flairs'', ''scissors_single_leg'', ''travels'', ''dismounts''}
   \<and> card (element_groups_present (map_routine_structure els sp tp)) \<le> 4
   \<and> group_of (PStr ''spindle'') = Some ''circles_flairs''
   \<and> group_of v \<noteq> Some ''spindles_handstands''
   \<and> map fst ELEMENT_GROUPS = [''scissors_single_leg'', ''circles_flairs'', ''travels'',
                                 ''spindles_handstands'', ''dismounts'']
   \<and> (structure_valid (map_routine_structure els sp tp) \<longrightarrow>
        element_groups_present (map_routine_structure els sp tp)
          = {''circles_flairs'', ''scissors_single_leg'', ''travels'', ''dismounts''})"
proof -
  let ?G = "element_groups_present (map_routine_structure els sp tp)"
  have sub: "?G \<subseteq> mapped_groups"
    by (rule groups_present_mapped)
  then have absent: "''spindles_handstands'' \<notin> ?G"
    by (auto simp: mapped_groups_def)
  have fin: "finite mapped_groups"
    by (simp add: mapped_groups_def)
  from sub fin have le: "card ?G \<le> 4"
    using card_mono [of mapped_groups ?G] by (simp add: card_mapped_groups)
  have spindle: "group_of (PStr ''spindle'') = Some ''circles_flairs''"
    by (simp add: group_of_def)
  have never: "group_of v \<noteq> Some ''spindles_handstands''"
    using group_of_mapped [of v "''spindles_handstands''"] by (auto simp: mapped_groups_def)
  have five: "map fst ELEMENT_GROUPS = [''scissors_single_leg'', ''circles_flairs'', ''travels'',
                                 ''spindles_handstands'', ''dismounts'']"
    by (simp add: ELEMENT_GROUPS_def)
  have valid: "structure_valid (map_routine_structure els sp tp) \<longrightarrow> ?G = mapped_groups"
  proof
    assume "structure_valid (map_routine_structure els sp tp)"
    then have "4 \<le> card ?G"
      by (simp add: structure_valid_spec)
    with sub fin show "?G = mapped_groups"
      using card_subset_eq [of mapped_groups ?G] le by (simp add: card_mapped_groups)
  qed
  from absent sub le spindle never five valid show ?thesis
    unfolding mapped_groups_def by (intro conjI)
qed

theorem C9_no_spindles_handstands_witness:
  "structure_valid (map_routine_structure sample_routine True True)
   \<and> element_groups_present (map_routine_structure sample_routine True True)
       = {''circles_flairs'', ''scissors_single_leg'', ''travels'', ''dismounts''}
   \<and> ''spindles_handstands''
       \<notin> element_groups_present (map_routine_structure sample_routine True True)"
proof -
  have "structure_valid (map_routine_structure sample_routine True True)"
    by (simp add: structure_valid_spec sample_groups sample_coverage sample_continuity)
  with C9_no_spindles_handstands [of sample_routine True True] show ?thesis
    by simp
qed

subsection \<open>Element group lookup\<close>

lemma get_element_group_cases:
  "get_element_group g =
     (if ''EG_I'' = g \<or> ''scissors_single_leg'' = g
        then map_of ELEMENT_GROUPS ''scissors_single_leg''
      else if ''EG_II'' = g \<or> ''circles_flairs'' = g
        then map_of ELEMENT_GROUPS ''circles_flairs''
      else if ''EG_III'' = g \<or> ''travels'' = g
        then map_of ELEMENT_GROUPS ''travels''
      else if ''EG_IV'' = g \<or> ''spindles_handstands'' = g
        then map_of ELEMENT_GROUPS ''spindles_handstands''
      else if ''EG_V'' = g \<or> ''dismounts'' = g
        then map_of ELEMENT_GROUPS ''dismounts''
      else None)"
  by (simp add: get_element_group_def ELEMENT_GROUPS_def)

text \<open>
  Claim C8. For each entry of the table, looking up its key (the semantic name) or its id
  returns that entry; its id is one of \<^verbatim>\<open>EG_I\<close> to \<^verbatim>\<open>EG_V\<close> and its key one of the five
  semantic names. Every other string yields \<^verbatim>\<open>None\<close>; the match is exact and case-sensitive
  (\<^verbatim>\<open>eg_i\<close> and \<^verbatim>\<open>Travels\<close> are not found). The lookup is a total function of its argument: it
  raises nothing and changes nothing.
\<close>

theorem C8_get_element_group:
  "((key, grp) \<in> set ELEMENT_GROUPS \<longrightarrow>
      get_element_group key = Some grp \<and> get_element_group (eg_id grp) = Some grp)
   \<and> map (\<lambda>(key, grp). (key, eg_id grp)) ELEMENT_GROUPS =
       [(''scissors_single_leg'', ''EG_I''), (''circles_flairs'', ''EG_II''),
        (''travels'', ''EG_III''), (''spindles_handstands'', ''EG_IV''), (''dismounts'', ''EG_V'')]
   \<and> (get_element_group g = Some grp \<longrightarrow>
        (\<exists>key. (key, grp) \<in> set ELEMENT_GROUPS \<and> (g = key \<or> g = eg_id grp)))
   \<and> (g \<notin> {''EG_I'', ''EG_II'', ''EG_III'', ''EG_IV'', ''EG_V'', ''scissors_single_leg'',
             ''circles_flairs'', ''travels'', ''spindles_handstands'', ''dismounts''}
      \<longrightarrow> get_element_group g = None)
   \<and> get_element_group ''eg_i'' = None
   \<and> get_element_group ''Travels'' = None"
proof -
  have entry: "(key, grp) \<in> set ELEMENT_GROUPS \<longrightarrow>
      get_element_group key = Some grp \<and> get_element_group (eg_id grp) = Some grp"
  proof
    assume "(key, grp) \<in> set ELEMENT_GROUPS"
    then have "(key, grp) = ELEMENT_GROUPS ! 0 \<or> (key, grp) = ELEMENT_GROUPS ! 1
        \<or> (key, grp) = ELEMENT_GROUPS ! 2 \<or> (key, grp) = ELEMENT_GROUPS ! 3
        \<or> (key, grp) = ELEMENT_GROUPS ! 4"
      by (simp add: ELEMENT_GROUPS_def)
    then show "get_element_group key = Some grp \<and> get_element_group (eg_id grp) = Some grp"
      by (elim disjE) (simp_all add: ELEMENT_GROUPS_def get_element_group_def)
  qed
  have ids: "map (\<lambda>(key, grp). (key, eg_id grp)) ELEMENT_GROUPS =
       [(''scissors_single_leg'', ''EG_I''), (''circles_flairs'', ''EG_II''),
        (''travels'', ''EG_III''), (''spindles_handstands'', ''EG_IV''), (''dismounts'', ''EG_V'')]"
    by (simp add: ELEMENT_GROUPS_def)
  have found: "get_element_group g = Some grp \<longrightarrow>
        (\<exists>key. (key, grp) \<in> set ELEMENT_GROUPS \<and> (g = key \<or> g = eg_id grp))"
  proof
    assume a: "get_element_group g = Some grp"
    have "find_group gs g = Some grp \<Longrightarrow>
        \<exists>key. (key, grp) \<in> set gs \<and> (g = key \<or> g = eg_id grp)" for gs
      by (induction gs) (auto split: if_splits)
    with a show "\<exists>key. (key, grp) \<in> set ELEMENT_GROUPS \<and> (g = key \<or> g = eg_id grp)"
      by (simp add: get_element_group_def)
  qed
  have other: "g \<notin> {''EG_I'', ''EG_II'', ''EG_III'', ''EG_IV'', ''EG_V'', ''scissors_single_leg'',
             ''circles_flairs'', ''travels'', ''spindles_handstands'', ''dismounts''}
      \<longrightarrow> get_element_group g = None"
    by (auto simp: get_element_group_cases)
  have lower: "get_element_group ''eg_i'' = None"
    by (simp add: get_element_group_cases)
  have upper: "get_element_group ''Travels'' = None"
    by (simp add: get_element_group_cases)
  from entry ids found other lower upper show ?thesis
    by (intro conjI)
qed

text \<open>
  The entry \<^verbatim>\<open>travels\<close> is found under its name and under \<^verbatim>\<open>EG_III\<close>; the string \<^verbatim>\<open>vaults\<close> is
  not found.
\<close>

theorem C8_get_element_group_witness:
  "(''travels'',
      \<lparr>eg_id = ''EG_III'', eg_name = ''Travels'',
       eg_movements = Some [''magyar'', ''sivado'', ''roth'', ''wu_guonian'']\<rparr>)
     \<in> set ELEMENT_GROUPS
   \<and> get_element_group ''travels'' =
       Some \<lparr>eg_id = ''EG_III'', eg_name = ''Travels'',
             eg_movements = Some [''magyar'', ''sivado'', ''roth'', ''wu_guonian'']\<rparr>
   \<and> get_element_group ''EG_III'' =
       Some \<lparr>eg_id = ''EG_III'', eg_name = ''Travels'',
             eg_movements = Some [''magyar'', ''sivado'', ''roth'', ''wu_guonian'']\<rparr>
   \<and> ''vaults'' \<notin> {''EG_I'', ''EG_II'', ''EG_III'', ''EG_IV'', ''EG_V'', ''scissors_single_leg'',
             ''circles_flairs'', ''travels'', ''spindles_handstands'', ''dismounts''}
   \<and> get_element_group ''vaults'' = None"
proof -
  have mem: "(''travels'',
      \<lparr>eg_id = ''EG_III'', eg_name = ''Travels'',
       eg_movements = Some [''magyar'', ''sivado'', ''roth'', ''wu_guonian'']\<rparr>)
     \<in> set ELEMENT_GROUPS"
    by (simp add: ELEMENT_GROUPS_def)
  have out: "''vaults'' \<notin> {''EG_I'', ''EG_II'', ''EG_III'', ''EG_IV'', ''EG_V'',
       ''scissors_single_leg'', ''circles_flairs'', ''travels'', ''spindles_handstands'',
       ''dismounts''}"
    by simp
  from mem out
    C8_get_element_group [of "''travels''"
      "\<lparr>eg_id = ''EG_III'', eg_name = ''Travels'',
        eg_movements = Some [''magyar'', ''sivado'', ''roth'', ''wu_guonian'']\<rparr>"
      "''vaults''"]
  show ?thesis
    by simp
qed

subsection \<open>Spatial composition\<close>

lemma not_found_messages:
  "not_found ''Zone'' ''nowhere'' \<noteq> not_found ''Support config'' ''no_hands''"
  by (simp add: not_found_def)

text \<open>
  Claim C7 at two unknown keys. Asked for the zone \<^verbatim>\<open>nowhere\<close> and the support configuration
  \<^verbatim>\<open>no_hands\<close>, neither of which exists, the response holds the two reference tables and one
  entry \<^verbatim>\<open>error\<close>: the message about the support configuration. The message about the zone
  was stored under the same key and overwritten, so no entry of the response reports it.
\<close>

theorem C7_two_unknown_keys_one_error:
  "analyze_spatial_composition (Some ''nowhere'') (Some ''no_hands'') None =
     [''spatial_zones'' \<mapsto> Table ''SPATIAL_ZONES'',
      ''apparatus_specs'' \<mapsto> Table ''APPARATUS_SPECS'',
      ''error'' \<mapsto> Msg (not_found ''Support config'' ''no_hands'')]
   \<and> map_of apparatus_sections ''nowhere'' = None
   \<and> get_support_config ''no_hands'' = []
   \<and> (\<forall>k. analyze_spatial_composition (Some ''nowhere'') (Some ''no_hands'') None k
            \<noteq> Some (Msg (not_found ''Zone'' ''nowhere'')))
   \<and> analyze_spatial_composition (Some ''nowhere'') None None ''error''
       = Some (Msg (not_found ''Zone'' ''nowhere''))"
proof -
  have zone: "map_of apparatus_sections ''nowhere'' = None"
    by (simp add: apparatus_sections_def)
  have config: "get_support_config ''no_hands'' = []"
    by (simp add: get_support_config_def support_configurations_def)
  have both: "analyze_spatial_composition (Some ''nowhere'') (Some ''no_hands'') None =
     [''spatial_zones'' \<mapsto> Table ''SPATIAL_ZONES'',
      ''apparatus_specs'' \<mapsto> Table ''APPARATUS_SPECS'',
      ''error'' \<mapsto> Msg (not_found ''Support config'' ''no_hands'')]"
    by (simp add: analyze_spatial_composition_def zone config)
  have lost: "\<forall>k. analyze_spatial_composition (Some ''nowhere'') (Some ''no_hands'') None k
            \<noteq> Some (Msg (not_found ''Zone'' ''nowhere''))"
    unfolding both using not_found_messages by simp
  have one: "analyze_spatial_composition (Some ''nowhere'') None None ''error''
       = Some (Msg (not_found ''Zone'' ''nowhere''))"
    by (simp add: analyze_spatial_composition_def zone)
  from both zone config lost one show ?thesis
    by (intro conjI)
qed

text \<open>
  What does hold of the response: the two reference tables are always there, a key that is
  found adds its entry whatever happens to the other keys, and a single unknown key is
  reported under \<^verbatim>\<open>error\<close>.
\<close>

lemma composition_reference_data:
  "analyze_spatial_composition z s t ''spatial_zones'' = Some (Table ''SPATIAL_ZONES'')"
  "analyze_spatial_composition z s t ''apparatus_specs'' = Some (Table ''APPARATUS_SPECS'')"
  by (simp_all add: analyze_spatial_composition_def Let_def split: option.splits)

lemma composition_found_zone:
  "map_of apparatus_sections zone = Some e \<Longrightarrow> zone \<noteq> [] \<Longrightarrow>
   analyze_spatial_composition (Some zone) s t ''focused_zone'' = Some (Entry e)"
  by (simp add: analyze_spatial_composition_def Let_def split: option.splits)

end
